theory Spec2Isabelle
  imports Main
begin

section \<open>Strings and arrays of the runtime\<close>

text \<open>
  The program is TypeScript. Its strings are modelled as \<open>string\<close> (a list of
  characters, one \<open>char\<close> per code unit, which covers the ASCII permission strings the
  program works on), \<open>string | undefined\<close> and \<open>string | null\<close> as \<open>string option\<close>,
  arrays as lists, and \<open>Date\<close> as a number of milliseconds. Reading a key that an object
  literal omits yields \<open>undefined\<close>, so an optional property is \<open>None\<close> both when it is
  omitted and when it is passed as \<open>undefined\<close>.

  The built-in operations the classes call are written out first.
\<close>

text \<open>\<open>String.prototype.split\<close> with a one-character separator: the segments between
  the occurrences of the separator; the empty string gives one empty segment.\<close>

fun js_split :: "char \<Rightarrow> string \<Rightarrow> string list" where
  "js_split sep [] = [[]]"
| "js_split sep (c # cs) =
     (if c = sep then [] # js_split sep cs
      else (case js_split sep cs of
              [] \<Rightarrow> [[c]]
            | seg # segs \<Rightarrow> (c # seg) # segs))"

text \<open>\<open>Array.prototype.includes\<close> and \<open>Array.prototype.indexOf\<close> on an array of
  strings: both compare with string equality; \<open>indexOf\<close> answers \<open>-1\<close> when the
  element is absent.\<close>

primrec js_includes :: "string list \<Rightarrow> string \<Rightarrow> bool" where
  "js_includes [] x = False"
| "js_includes (y # ys) x = (y = x \<or> js_includes ys x)"

primrec js_indexOf :: "string list \<Rightarrow> string \<Rightarrow> int" where
  "js_indexOf [] x = - 1"
| "js_indexOf (y # ys) x =
     (if y = x then 0
      else (let i = js_indexOf ys x in if i > - 1 then i + 1 else - 1))"

text \<open>\<open>xs.splice(index, 1)\<close> for an index inside the array: the element at \<open>index\<close>
  is removed.\<close>

definition js_splice1 :: "string list \<Rightarrow> int \<Rightarrow> string list" where
  "js_splice1 xs index = take (nat index) xs @ drop (nat index + 1) xs"

text \<open>\<open>String.prototype.trim\<close> removes white space and line terminators from both
  ends. Of the code points ECMAScript lists, those below 256 are TAB, LF, VT, FF, CR,
  SP and NBSP.\<close>

definition isWhiteSpace :: "char \<Rightarrow> bool" where
  "isWhiteSpace c = ((of_char c :: nat) \<in> {9, 10, 11, 12, 13, 32, 160})"

definition js_trim :: "string \<Rightarrow> string" where
  "js_trim s = rev (dropWhile isWhiteSpace (rev (dropWhile isWhiteSpace s)))"

text \<open>Truthiness of a \<open>string | undefined\<close> value: \<open>undefined\<close> and the empty string
  are falsy. \<open>x || null\<close> keeps a truthy \<open>x\<close> and answers \<open>null\<close> otherwise.\<close>

fun truthy :: "string option \<Rightarrow> bool" where
  "truthy None = False"
| "truthy (Some s) = (s \<noteq> [])"

definition orNull :: "string option \<Rightarrow> string option" where
  "orNull x = (if truthy x then x else None)"


section \<open>Permission\<close>

text \<open>The types \<open>PermissionAction\<close> and \<open>PermissionResource\<close> are unions of string
  literals; at run time their values are strings, and \<open>Permission.create\<close> casts a
  checked string to them.\<close>

type_synonym PermissionAction = string
type_synonym PermissionResource = string

record Permission =
  resource :: PermissionResource
  action :: PermissionAction
  scope :: "string option"

datatype PermissionError =
    InvalidFormat
  | InvalidResource string
  | InvalidAction string

definition validResources :: "PermissionResource list" where
  "validResources =
     [''user'', ''role'', ''student'', ''teacher'', ''class'', ''subject'', ''assignment'',
      ''grade'', ''attendance'', ''schedule'', ''announcement'', ''report'', ''system'']"

definition validActions :: "PermissionAction list" where
  "validActions = [''create'', ''read'', ''update'', ''delete'', ''manage'']"

definition isValidResource :: "string \<Rightarrow> bool" where
  "isValidResource r = js_includes validResources r"

definition isValidAction :: "string \<Rightarrow> bool" where
  "isValidAction a = js_includes validActions a"

text \<open>\<open>Permission.create\<close>. Each \<open>throw\<close> is an error value; the message of the
  second and third error carries the offending segment. The destructuring
  \<open>[resource, action, scope] = parts\<close> leaves \<open>scope\<close> undefined when there are two
  parts.\<close>

definition Permission_create :: "string \<Rightarrow> PermissionError + Permission" where
  "Permission_create permissionString =
     (let parts = js_split CHR '':'' permissionString in
      if length parts < 2 \<or> length parts > 3 then Inl InvalidFormat
      else
        let r = parts ! 0;
            a = parts ! 1;
            sc = (if 2 < length parts then Some (parts ! 2) else None)
        in if \<not> isValidResource r then Inl (InvalidResource r)
           else if \<not> isValidAction a then Inl (InvalidAction a)
           else Inr \<lparr>resource = r, action = a, scope = sc\<rparr>)"

definition fromComponents ::
  "PermissionResource \<Rightarrow> PermissionAction \<Rightarrow> string option \<Rightarrow> Permission" where
  "fromComponents r a sc = \<lparr>resource = r, action = a, scope = sc\<rparr>"

definition toString :: "Permission \<Rightarrow> string" where
  "toString this =
     (if truthy (scope this)
      then resource this @ '':'' @ action this @ '':'' @ the (scope this)
      else resource this @ '':'' @ action this)"

definition matches :: "Permission \<Rightarrow> Permission \<Rightarrow> bool" where
  "matches this required =
     (if resource this \<noteq> resource required then False
      else if action this = ''manage'' then True
      else if action this \<noteq> action required then False
      else if truthy (scope required)
           then \<not> truthy (scope this) \<or> scope this = scope required
      else True)"

definition implies_perm :: "Permission \<Rightarrow> Permission \<Rightarrow> bool" where
  "implies_perm this other = matches this other"

definition equals :: "Permission \<Rightarrow> Permission \<Rightarrow> bool" where
  "equals this other =
     (resource this = resource other \<and> action this = action other
      \<and> scope this = scope other)"


section \<open>Role\<close>

text \<open>The clock (\<open>new Date()\<close>) and the identifier source (\<open>crypto.randomUUID()\<close>)
  are inputs: every operation that reads one of them takes its reading as an
  argument. The methods mutate the object in place; the model returns the updated
  record.\<close>

record Role =
  roleId :: string
  name :: string
  displayName :: string
  description :: "string option"
  permissions :: "string list"
  tenantId :: "string option"
  isActive :: bool
  createdAt :: nat
  updatedAt :: nat

text \<open>\<open>Role.create(props)\<close>, with the properties of \<open>props\<close> as arguments in the
  order the source declares them (\<open>description\<close>, \<open>permissions\<close> and \<open>tenantId\<close> are
  optional). An array is truthy even when empty, so \<open>props.permissions || []\<close> only
  replaces \<open>undefined\<close>.\<close>

definition Role_create ::
  "string \<Rightarrow> nat \<Rightarrow> string \<Rightarrow> string \<Rightarrow> string option \<Rightarrow> string list option
     \<Rightarrow> string option \<Rightarrow> Role" where
  "Role_create uuid now p_name p_displayName p_description p_permissions p_tenantId =
     \<lparr>roleId = uuid,
      name = p_name,
      displayName = js_trim p_displayName,
      description = orNull (map_option js_trim p_description),
      permissions = (case p_permissions of None \<Rightarrow> [] | Some ps \<Rightarrow> ps),
      tenantId = orNull p_tenantId,
      isActive = True,
      createdAt = now,
      updatedAt = now\<rparr>"

definition reconstitute ::
  "string \<Rightarrow> string \<Rightarrow> string \<Rightarrow> string option \<Rightarrow> string list \<Rightarrow> string option
     \<Rightarrow> bool \<Rightarrow> nat \<Rightarrow> nat \<Rightarrow> Role" where
  "reconstitute p_id p_name p_displayName p_description p_permissions p_tenantId
       p_isActive p_createdAt p_updatedAt =
     \<lparr>roleId = p_id,
      name = p_name,
      displayName = p_displayName,
      description = p_description,
      permissions = p_permissions,
      tenantId = p_tenantId,
      isActive = p_isActive,
      createdAt = p_createdAt,
      updatedAt = p_updatedAt\<rparr>"

definition getDisplayName :: "Role \<Rightarrow> string" where
  "getDisplayName this = displayName this"

definition getPermissions :: "Role \<Rightarrow> string list" where
  "getPermissions this = permissions this"

definition touch :: "nat \<Rightarrow> Role \<Rightarrow> Role" where
  "touch now this = this\<lparr>updatedAt := now\<rparr>"

text \<open>\<open>updateDetails(props)\<close>, with \<open>props.displayName\<close> and \<open>props.description\<close> as
  arguments.\<close>

definition updateDetails :: "nat \<Rightarrow> Role \<Rightarrow> string option \<Rightarrow> string option \<Rightarrow> Role" where
  "updateDetails now this p_displayName p_description =
     (let r1 = (if truthy p_displayName
                then this\<lparr>displayName := js_trim (the p_displayName)\<rparr>
                else this);
          r2 = (if p_description \<noteq> None
                then r1\<lparr>description := orNull (map_option js_trim p_description)\<rparr>
                else r1)
      in touch now r2)"

definition addPermission :: "nat \<Rightarrow> Role \<Rightarrow> string \<Rightarrow> Role" where
  "addPermission now this permission =
     (if \<not> js_includes (permissions this) permission
      then touch now (this\<lparr>permissions := permissions this @ [permission]\<rparr>)
      else this)"

definition removePermission :: "nat \<Rightarrow> Role \<Rightarrow> string \<Rightarrow> Role" where
  "removePermission now this permission =
     (let index = js_indexOf (permissions this) permission in
      if index > - 1
      then touch now (this\<lparr>permissions := js_splice1 (permissions this) index\<rparr>)
      else this)"

definition setPermissions :: "nat \<Rightarrow> Role \<Rightarrow> string list \<Rightarrow> Role" where
  "setPermissions now this ps = touch now (this\<lparr>permissions := ps\<rparr>)"

definition hasPermission :: "Role \<Rightarrow> string \<Rightarrow> bool" where
  "hasPermission this permission = js_includes (permissions this) permission"

definition activate :: "nat \<Rightarrow> Role \<Rightarrow> Role" where
  "activate now this = touch now (this\<lparr>isActive := True\<rparr>)"

definition deactivate :: "nat \<Rightarrow> Role \<Rightarrow> Role" where
  "deactivate now this = touch now (this\<lparr>isActive := False\<rparr>)"


section \<open>Facts about the built-in operations\<close>

lemma js_includes_iff: "js_includes xs x = (x \<in> set xs)"
  by (induction xs) auto

lemma js_split_not_Nil: "js_split sep s \<noteq> []"
  by (induction s) (auto split: list.splits)

lemma js_split_no_sep: "sep \<notin> set r \<Longrightarrow> js_split sep r = [r]"
  by (induction r) auto

lemma js_split_append:
  "sep \<notin> set r \<Longrightarrow> js_split sep (r @ sep # rest) = r # js_split sep rest"
  by (induction r) auto

lemma length_js_split: "length (js_split sep s) = Suc (count_list s sep)"
  by (induction s) (auto split: list.splits simp: js_split_not_Nil)

lemma js_indexOf_found: "(js_indexOf xs x > - 1) = (x \<in> set xs)"
  by (induction xs) (auto simp: Let_def)

lemma js_splice1_indexOf:
  "x \<in> set xs \<Longrightarrow> js_splice1 xs (js_indexOf xs x) = remove1 x xs"
proof (induction xs)
  case Nil
  then show ?case by simp
next
  case (Cons y ys)
  show ?case
  proof (cases "y = x")
    case True
    then show ?thesis by (simp add: js_splice1_def)
  next
    case False
    with Cons.prems have mem: "x \<in> set ys" by simp
    then have pos: "js_indexOf ys x > - 1" by (simp add: js_indexOf_found)
    then have "nat (js_indexOf ys x + 1) = Suc (nat (js_indexOf ys x))" by simp
    with False pos Cons.IH [OF mem] show ?thesis
      by (simp add: js_splice1_def Let_def)
  qed
qed

lemma dropWhile_all_Nil:
  assumes "\<forall>x \<in> set (dropWhile P xs). P x"
  shows "dropWhile P xs = []"
proof (rule ccontr)
  assume ne: "dropWhile P xs \<noteq> []"
  then have "\<not> P (hd (dropWhile P xs))" by (rule hd_dropWhile)
  moreover from ne have "hd (dropWhile P xs) \<in> set (dropWhile P xs)" by simp
  ultimately show False using assms by blast
qed

lemma js_trim_Nil_iff: "(js_trim s = []) = (\<forall>c \<in> set s. isWhiteSpace c)"
proof
  assume "js_trim s = []"
  then have "\<forall>x \<in> set (dropWhile isWhiteSpace s). isWhiteSpace x"
    by (simp add: js_trim_def dropWhile_eq_Nil_conv)
  then have "dropWhile isWhiteSpace s = []" by (rule dropWhile_all_Nil)
  then show "\<forall>c \<in> set s. isWhiteSpace c" by (simp add: dropWhile_eq_Nil_conv)
next
  assume "\<forall>c \<in> set s. isWhiteSpace c"
  then show "js_trim s = []" by (auto simp: js_trim_def dest: set_dropWhileD)
qed

lemma validResources_no_colon: "r \<in> set validResources \<Longrightarrow> CHR '':'' \<notin> set r"
  by (auto simp: validResources_def)

lemma validActions_no_colon: "a \<in> set validActions \<Longrightarrow> CHR '':'' \<notin> set a"
  by (auto simp: validActions_def)


section \<open>Facts about parsing\<close>

lemma isValidResource_iff: "isValidResource r = (r \<in> set validResources)"
  by (simp add: isValidResource_def js_includes_iff)

lemma isValidAction_iff: "isValidAction a = (a \<in> set validActions)"
  by (simp add: isValidAction_def js_includes_iff)

lemma Permission_create_two:
  assumes "r \<in> set validResources" and "a \<in> set validActions"
  shows "Permission_create (r @ '':'' @ a) = Inr \<lparr>resource = r, action = a, scope = None\<rparr>"
proof -
  have "js_split CHR '':'' (r @ '':'' @ a) = [r, a]"
    using assms
    by (simp add: js_split_append js_split_no_sep validResources_no_colon
        validActions_no_colon)
  with assms show ?thesis
    by (simp add: Permission_create_def isValidResource_iff isValidAction_iff)
qed

lemma Permission_create_three:
  assumes "r \<in> set validResources" and "a \<in> set validActions"
    and "CHR '':'' \<notin> set sc"
  shows "Permission_create (r @ '':'' @ a @ '':'' @ sc)
           = Inr \<lparr>resource = r, action = a, scope = Some sc\<rparr>"
proof -
  have "js_split CHR '':'' (r @ '':'' @ a @ '':'' @ sc) = [r, a, sc]"
    using assms
    by (simp add: js_split_append js_split_no_sep validResources_no_colon
        validActions_no_colon)
  with assms show ?thesis
    by (simp add: Permission_create_def isValidResource_iff isValidAction_iff)
qed

lemma Permission_create_cases:
  "Permission_create s =
     (let parts = js_split CHR '':'' s in
      if length parts \<noteq> 2 \<and> length parts \<noteq> 3 then Inl InvalidFormat
      else if parts ! 0 \<notin> set validResources then Inl (InvalidResource (parts ! 0))
      else if parts ! 1 \<notin> set validActions then Inl (InvalidAction (parts ! 1))
      else Inr \<lparr>resource = parts ! 0, action = parts ! 1,
                scope = (if length parts = 3 then Some (parts ! 2) else None)\<rparr>)"
  by (auto simp: Permission_create_def Let_def isValidResource_iff isValidAction_iff)

lemma grade_valid: "''grade'' \<in> set validResources"
  by (simp add: validResources_def)

lemma actions_valid:
  "''manage'' \<in> set validActions" "''read'' \<in> set validActions"
  "''update'' \<in> set validActions"
  by (simp_all add: validActions_def)


section \<open>Permission: parsing, canonical form, matching\<close>

text \<open>
  Claim C8. For every resource \<open>r\<close> of the resource enumeration and every action
  \<open>a\<close> of the action enumeration, \<open>Permission.create\<close> succeeds on \<open>r:a\<close>, and
  the permission \<open>p\<close> it returns round-trips: parsing \<open>p.toString()\<close> succeeds and
  the result prints as \<open>p.toString()\<close> again.
\<close>

theorem create_roundtrip:
  assumes "r \<in> set validResources" and "a \<in> set validActions"
  shows "Permission_create (r @ '':'' @ a)
           = Inr \<lparr>resource = r, action = a, scope = None\<rparr>
         \<and> map_sum id toString
             (Permission_create (toString \<lparr>resource = r, action = a, scope = None\<rparr>))
           = Inr (toString \<lparr>resource = r, action = a, scope = None\<rparr>)"
  using Permission_create_two [OF assms] by (simp add: toString_def)

theorem create_roundtrip_witness:
  "''grade'' \<in> set validResources \<and> ''manage'' \<in> set validActions
   \<and> Permission_create ''grade:manage''
       = Inr \<lparr>resource = ''grade'', action = ''manage'', scope = None\<rparr>
   \<and> map_sum id toString
       (Permission_create (toString \<lparr>resource = ''grade'', action = ''manage'', scope = None\<rparr>))
     = Inr (toString \<lparr>resource = ''grade'', action = ''manage'', scope = None\<rparr>)"
proof -
  have r: "''grade'' \<in> set validResources" by (simp add: validResources_def)
  have a: "''manage'' \<in> set validActions" by (simp add: validActions_def)
  show ?thesis using r a create_roundtrip [OF r a] by simp
qed

text \<open>
  Claim C9. For every valid resource \<open>r\<close> and action \<open>a\<close>, \<open>Permission.create\<close>
  succeeds on \<open>r:a:\<close> (an empty third segment); the permission it returns prints as
  \<open>r:a\<close>, and it is not \<open>equals\<close> to the permission parsed from \<open>r:a\<close>, whose
  scope is absent rather than empty.
\<close>

theorem create_trailing_colon:
  assumes "r \<in> set validResources" and "a \<in> set validActions"
  shows "Permission_create (r @ '':'' @ a @ '':'')
           = Inr \<lparr>resource = r, action = a, scope = Some []\<rparr>
         \<and> toString \<lparr>resource = r, action = a, scope = Some []\<rparr> = r @ '':'' @ a
         \<and> Permission_create (r @ '':'' @ a)
           = Inr \<lparr>resource = r, action = a, scope = None\<rparr>
         \<and> \<not> equals \<lparr>resource = r, action = a, scope = Some []\<rparr>
                \<lparr>resource = r, action = a, scope = None\<rparr>"
  using Permission_create_three [OF assms, of "[]"] Permission_create_two [OF assms]
  by (simp add: toString_def equals_def)

theorem create_trailing_colon_witness:
  "''user'' \<in> set validResources \<and> ''read'' \<in> set validActions
   \<and> Permission_create ''user:read:''
       = Inr \<lparr>resource = ''user'', action = ''read'', scope = Some []\<rparr>
   \<and> toString \<lparr>resource = ''user'', action = ''read'', scope = Some []\<rparr> = ''user:read''
   \<and> Permission_create ''user:read''
       = Inr \<lparr>resource = ''user'', action = ''read'', scope = None\<rparr>
   \<and> \<not> equals \<lparr>resource = ''user'', action = ''read'', scope = Some []\<rparr>
          \<lparr>resource = ''user'', action = ''read'', scope = None\<rparr>"
proof -
  have r: "''user'' \<in> set validResources" by (simp add: validResources_def)
  have a: "''read'' \<in> set validActions" by (simp add: validActions_def)
  show ?thesis using r a create_trailing_colon [OF r a] by simp
qed

text \<open>
  Claim C10. \<open>matches\<close> (and its alias \<open>implies\<close>) is not transitive: with
  \<open>a = grade:update:class_123\<close>, \<open>b = grade:update\<close> and
  \<open>c = grade:update:class_456\<close>, all three parsed by \<open>Permission.create\<close>,
  \<open>a\<close> matches \<open>b\<close> and \<open>b\<close> matches \<open>c\<close>, but \<open>a\<close> does not match \<open>c\<close>.
\<close>

theorem matches_not_transitive:
  "Permission_create ''grade:update:class_123''
     = Inr \<lparr>resource = ''grade'', action = ''update'', scope = Some ''class_123''\<rparr>
   \<and> Permission_create ''grade:update''
     = Inr \<lparr>resource = ''grade'', action = ''update'', scope = None\<rparr>
   \<and> Permission_create ''grade:update:class_456''
     = Inr \<lparr>resource = ''grade'', action = ''update'', scope = Some ''class_456''\<rparr>
   \<and> matches \<lparr>resource = ''grade'', action = ''update'', scope = Some ''class_123''\<rparr>
        \<lparr>resource = ''grade'', action = ''update'', scope = None\<rparr>
   \<and> matches \<lparr>resource = ''grade'', action = ''update'', scope = None\<rparr>
        \<lparr>resource = ''grade'', action = ''update'', scope = Some ''class_456''\<rparr>
   \<and> \<not> matches \<lparr>resource = ''grade'', action = ''update'', scope = Some ''class_123''\<rparr>
        \<lparr>resource = ''grade'', action = ''update'', scope = Some ''class_456''\<rparr>
   \<and> implies_perm \<lparr>resource = ''grade'', action = ''update'', scope = Some ''class_123''\<rparr>
        \<lparr>resource = ''grade'', action = ''update'', scope = None\<rparr>
   \<and> implies_perm \<lparr>resource = ''grade'', action = ''update'', scope = None\<rparr>
        \<lparr>resource = ''grade'', action = ''update'', scope = Some ''class_456''\<rparr>
   \<and> \<not> implies_perm \<lparr>resource = ''grade'', action = ''update'', scope = Some ''class_123''\<rparr>
        \<lparr>resource = ''grade'', action = ''update'', scope = Some ''class_456''\<rparr>"
proof -
  have "Permission_create ''grade:update:class_123''
     = Inr \<lparr>resource = ''grade'', action = ''update'', scope = Some ''class_123''\<rparr>"
    using Permission_create_three [OF grade_valid actions_valid(3), of "''class_123''"] by simp
  moreover have "Permission_create ''grade:update''
     = Inr \<lparr>resource = ''grade'', action = ''update'', scope = None\<rparr>"
    using Permission_create_two [OF grade_valid actions_valid(3)] by simp
  moreover have "Permission_create ''grade:update:class_456''
     = Inr \<lparr>resource = ''grade'', action = ''update'', scope = Some ''class_456''\<rparr>"
    using Permission_create_three [OF grade_valid actions_valid(3), of "''class_456''"] by simp
  ultimately show ?thesis
    by (simp add: matches_def implies_perm_def)
qed

theorem matches_not_transitive_witness:
  "matches \<lparr>resource = ''grade'', action = ''update'', scope = Some ''class_123''\<rparr>
        \<lparr>resource = ''grade'', action = ''update'', scope = None\<rparr>
   \<and> matches \<lparr>resource = ''grade'', action = ''update'', scope = None\<rparr>
        \<lparr>resource = ''grade'', action = ''update'', scope = Some ''class_456''\<rparr>
   \<and> \<not> matches \<lparr>resource = ''grade'', action = ''update'', scope = Some ''class_123''\<rparr>
        \<lparr>resource = ''grade'', action = ''update'', scope = Some ''class_456''\<rparr>"
  using matches_not_transitive by blast

text \<open>
  Claim C3. \<open>Permission.create(s)\<close> succeeds exactly when splitting \<open>s\<close> on the
  colon gives 2 or 3 segments, the first a member of the resource enumeration and the
  second a member of the action enumeration; the permission returned holds the first
  two segments and, when there is a third, that segment as its scope, whatever it is.
  The error is \<open>InvalidFormat\<close> exactly when the number of segments is neither 2 nor
  3 (the empty input has one segment), \<open>InvalidResource\<close> exactly when the count is
  right and the first segment is not a resource, and \<open>InvalidAction\<close> exactly when
  count and resource are right and the second segment is not an action. The number of
  segments is one more than the number of colons in \<open>s\<close>.
\<close>

theorem create_validation_order:
  "(let parts = js_split CHR '':'' s in
      (Permission_create s = Inr p)
        = ((length parts = 2 \<or> length parts = 3)
           \<and> parts ! 0 \<in> set validResources
           \<and> parts ! 1 \<in> set validActions
           \<and> p = \<lparr>resource = parts ! 0, action = parts ! 1,
                   scope = (if length parts = 3 then Some (parts ! 2) else None)\<rparr>)
    \<and> (Permission_create s = Inl InvalidFormat)
        = (length parts \<noteq> 2 \<and> length parts \<noteq> 3)
    \<and> (Permission_create s = Inl (InvalidResource x))
        = ((length parts = 2 \<or> length parts = 3)
           \<and> x = parts ! 0 \<and> x \<notin> set validResources)
    \<and> (Permission_create s = Inl (InvalidAction y))
        = ((length parts = 2 \<or> length parts = 3)
           \<and> parts ! 0 \<in> set validResources
           \<and> y = parts ! 1 \<and> y \<notin> set validActions)
    \<and> length parts = Suc (count_list s CHR '':''))
   \<and> Permission_create [] = Inl InvalidFormat"
proof -
  have "Permission_create [] = Inl InvalidFormat"
    by (simp add: Permission_create_def)
  moreover have "length (js_split CHR '':'' s) = Suc (count_list s CHR '':'')"
    by (rule length_js_split)
  ultimately show ?thesis
    unfolding Let_def Permission_create_cases [of s]
    by (auto simp: Let_def)
qed

theorem create_validation_order_witness:
  "Permission_create ''bogus:read'' = Inl (InvalidResource ''bogus'')
   \<and> Permission_create ''user:bogus'' = Inl (InvalidAction ''bogus'')
   \<and> Permission_create ''bogus:bogus'' = Inl (InvalidResource ''bogus'')
   \<and> Permission_create ''user'' = Inl InvalidFormat
   \<and> Permission_create ''user:create:scope:extra'' = Inl InvalidFormat
   \<and> Permission_create ''grade:update:any scope!''
       = Inr \<lparr>resource = ''grade'', action = ''update'', scope = Some ''any scope!''\<rparr>"
  using create_validation_order [of "''bogus:read''" "\<lparr>resource = [], action = [], scope = None\<rparr>" "''bogus''" "[]"]
    create_validation_order [of "''user:bogus''" "\<lparr>resource = [], action = [], scope = None\<rparr>" "[]" "''bogus''"]
    create_validation_order [of "''bogus:bogus''" "\<lparr>resource = [], action = [], scope = None\<rparr>" "''bogus''" "[]"]
    create_validation_order [of "''user''" "\<lparr>resource = [], action = [], scope = None\<rparr>" "[]" "[]"]
    create_validation_order [of "''user:create:scope:extra''"
       "\<lparr>resource = [], action = [], scope = None\<rparr>" "[]" "[]"]
    create_validation_order [of "''grade:update:any scope!''"
       "\<lparr>resource = ''grade'', action = ''update'', scope = Some ''any scope!''\<rparr>"
       "[]" "[]"]
  by (simp add: validResources_def validActions_def)


text \<open>
  Claim C2, as the code has it. \<open>a.matches(b)\<close> is true exactly when \<open>a\<close> and \<open>b\<close>
  have the same resource and either the action of \<open>a\<close> is \<open>manage\<close>, or the actions
  are equal and one of these holds: the scope of \<open>b\<close> is absent or the empty string,
  the scope of \<open>a\<close> is absent or the empty string, or the two scopes are equal. So a
  \<open>manage\<close> grant matches every action on its resource, and permissions on different
  resources never match.
\<close>

theorem matches_characterisation:
  "matches a b
     = (resource a = resource b
        \<and> (action a = ''manage''
           \<or> (action a = action b
              \<and> (scope b = None \<or> scope b = Some [] \<or> scope a = None \<or> scope a = Some []
                 \<or> scope a = scope b))))
   \<and> (resource a = resource b \<and> action a = ''manage'' \<longrightarrow> matches a b)
   \<and> (resource a \<noteq> resource b \<longrightarrow> \<not> matches a b)"
proof -
  have t: "truthy x = (x \<noteq> None \<and> x \<noteq> Some [])" for x
    by (cases x) auto
  show ?thesis
    by (auto simp: matches_def t)
qed

theorem matches_characterisation_witness:
  "matches \<lparr>resource = ''grade'', action = ''manage'', scope = None\<rparr>
      \<lparr>resource = ''grade'', action = ''delete'', scope = Some ''class_1''\<rparr>
   \<and> \<not> matches \<lparr>resource = ''grade'', action = ''read'', scope = None\<rparr>
      \<lparr>resource = ''user'', action = ''read'', scope = None\<rparr>
   \<and> \<not> matches \<lparr>resource = ''grade'', action = ''read'', scope = Some ''class_1''\<rparr>
      \<lparr>resource = ''grade'', action = ''read'', scope = Some ''class_2''\<rparr>"
  using matches_characterisation
      [of "\<lparr>resource = ''grade'', action = ''manage'', scope = None\<rparr>"
          "\<lparr>resource = ''grade'', action = ''delete'', scope = Some ''class_1''\<rparr>"]
    matches_characterisation
      [of "\<lparr>resource = ''grade'', action = ''read'', scope = None\<rparr>"
          "\<lparr>resource = ''user'', action = ''read'', scope = None\<rparr>"]
    matches_characterisation
      [of "\<lparr>resource = ''grade'', action = ''read'', scope = Some ''class_1''\<rparr>"
          "\<lparr>resource = ''grade'', action = ''read'', scope = Some ''class_2''\<rparr>"]
  by simp

text \<open>
  With "has no scope" read as "the scope is absent", the characterisation of claim C2
  fails on a required permission whose scope is the empty string, which
  \<open>Permission.create\<close> returns for a trailing colon: the grant
  \<open>grade:update:class_123\<close> matches the requirement parsed from \<open>grade:update:\<close>,
  although both have a scope and the scopes differ.
\<close>

theorem matches_empty_scope_counterexample:
  "Permission_create ''grade:update:class_123''
     = Inr \<lparr>resource = ''grade'', action = ''update'', scope = Some ''class_123''\<rparr>
   \<and> Permission_create ''grade:update:''
     = Inr \<lparr>resource = ''grade'', action = ''update'', scope = Some []\<rparr>
   \<and> matches \<lparr>resource = ''grade'', action = ''update'', scope = Some ''class_123''\<rparr>
        \<lparr>resource = ''grade'', action = ''update'', scope = Some []\<rparr>
   \<and> \<not> (resource \<lparr>resource = ''grade'', action = ''update'', scope = Some ''class_123''\<rparr>
          = resource \<lparr>resource = ''grade'', action = ''update'', scope = Some []\<rparr>
        \<and> (action \<lparr>resource = ''grade'', action = ''update'', scope = Some ''class_123''\<rparr>
             = ''manage''
           \<or> (action \<lparr>resource = ''grade'', action = ''update'', scope = Some ''class_123''\<rparr>
                = action \<lparr>resource = ''grade'', action = ''update'', scope = Some []\<rparr>
              \<and> (scope \<lparr>resource = ''grade'', action = ''update'', scope = Some []\<rparr> = None
                 \<or> scope \<lparr>resource = ''grade'', action = ''update'',
                           scope = Some ''class_123''\<rparr> = None
                 \<or> scope \<lparr>resource = ''grade'', action = ''update'',
                           scope = Some ''class_123''\<rparr>
                    = scope \<lparr>resource = ''grade'', action = ''update'', scope = Some []\<rparr>))))"
proof -
  have "Permission_create ''grade:update:class_123''
     = Inr \<lparr>resource = ''grade'', action = ''update'', scope = Some ''class_123''\<rparr>"
    using Permission_create_three [OF grade_valid actions_valid(3), of "''class_123''"] by simp
  moreover have "Permission_create ''grade:update:''
     = Inr \<lparr>resource = ''grade'', action = ''update'', scope = Some []\<rparr>"
    using Permission_create_three [OF grade_valid actions_valid(3), of "[]"] by simp
  ultimately show ?thesis
    by (simp add: matches_def)
qed


section \<open>Role: queries\<close>

text \<open>
  Claim C1. \<open>hasPermission(p)\<close> is true exactly when \<open>p\<close> is a member of the stored
  permission list, by string equality; the wildcard and scope reasoning of
  \<open>Permission.matches\<close> plays no part. A role created with the permissions
  \<open>["grade:manage"]\<close> has \<open>grade:manage\<close> and does not have \<open>grade:read\<close>, although
  the permission parsed from \<open>grade:manage\<close> matches the one parsed from
  \<open>grade:read\<close>.
\<close>

theorem hasPermission_exact_membership:
  "hasPermission r p = (p \<in> set (permissions r))
   \<and> hasPermission (Role_create uuid now ''teacher'' dn ds (Some [''grade:manage'']) tid)
        ''grade:manage''
   \<and> \<not> hasPermission (Role_create uuid now ''teacher'' dn ds (Some [''grade:manage'']) tid)
        ''grade:read''
   \<and> Permission_create ''grade:manage''
        = Inr \<lparr>resource = ''grade'', action = ''manage'', scope = None\<rparr>
   \<and> Permission_create ''grade:read''
        = Inr \<lparr>resource = ''grade'', action = ''read'', scope = None\<rparr>
   \<and> matches \<lparr>resource = ''grade'', action = ''manage'', scope = None\<rparr>
        \<lparr>resource = ''grade'', action = ''read'', scope = None\<rparr>"
proof -
  have "hasPermission r p = (p \<in> set (permissions r))"
    by (simp add: hasPermission_def js_includes_iff)
  moreover have "hasPermission
      (Role_create uuid now ''teacher'' dn ds (Some [''grade:manage'']) tid) ''grade:manage''"
    by (simp add: hasPermission_def Role_create_def)
  moreover have "\<not> hasPermission
      (Role_create uuid now ''teacher'' dn ds (Some [''grade:manage'']) tid) ''grade:read''"
    by (simp add: hasPermission_def Role_create_def)
  moreover have "Permission_create ''grade:manage''
        = Inr \<lparr>resource = ''grade'', action = ''manage'', scope = None\<rparr>"
    using Permission_create_two [OF grade_valid actions_valid(1)] by simp
  moreover have "Permission_create ''grade:read''
        = Inr \<lparr>resource = ''grade'', action = ''read'', scope = None\<rparr>"
    using Permission_create_two [OF grade_valid actions_valid(2)] by simp
  moreover have "matches \<lparr>resource = ''grade'', action = ''manage'', scope = None\<rparr>
        \<lparr>resource = ''grade'', action = ''read'', scope = None\<rparr>"
    by (simp add: matches_def)
  ultimately show ?thesis by blast
qed

theorem hasPermission_exact_membership_witness:
  "hasPermission
     (Role_create ''r1'' 0 ''teacher'' ''Teacher'' None (Some [''grade:manage'']) None)
     ''grade:read''
   = (''grade:read'' \<in> set (permissions
        (Role_create ''r1'' 0 ''teacher'' ''Teacher'' None (Some [''grade:manage'']) None)))
   \<and> \<not> hasPermission
        (Role_create ''r1'' 0 ''teacher'' ''Teacher'' None (Some [''grade:manage'']) None)
        ''grade:read''
   \<and> matches \<lparr>resource = ''grade'', action = ''manage'', scope = None\<rparr>
        \<lparr>resource = ''grade'', action = ''read'', scope = None\<rparr>"
  using hasPermission_exact_membership
    [of "Role_create ''r1'' 0 ''teacher'' ''Teacher'' None (Some [''grade:manage'']) None"
        "''grade:read''" "''r1''" 0 "''Teacher''" None None]
  by (simp add: Role_create_def)


section \<open>Role: the permission list\<close>

lemma permissions_addPermission:
  "permissions (addPermission now r p)
     = (if p \<in> set (permissions r) then permissions r else permissions r @ [p])"
  by (simp add: addPermission_def touch_def js_includes_iff)

lemma permissions_removePermission:
  "permissions (removePermission now r p) = remove1 p (permissions r)"
proof (cases "p \<in> set (permissions r)")
  case True
  then show ?thesis
    by (simp add: removePermission_def touch_def Let_def js_indexOf_found js_splice1_indexOf)
next
  case False
  then show ?thesis
    by (simp add: removePermission_def Let_def js_indexOf_found remove1_idem)
qed

text \<open>
  Claim C4, as the code has it. \<open>create\<close>, \<open>reconstitute\<close> and \<open>setPermissions\<close>
  store the list they are given as it is: the stored list equals the given list, and
  \<open>create\<close> without a list stores the empty list. So the stored list is
  duplicate-free exactly when the given list is. \<open>addPermission\<close> appends the string
  unless it is already present and \<open>removePermission\<close> removes its first occurrence;
  both keep a duplicate-free permission list duplicate-free.
\<close>

theorem permissions_duplicate_freedom:
  "permissions (Role_create uuid now n dn ds (Some ps) tid) = ps
   \<and> permissions (Role_create uuid now n dn ds None tid) = []
   \<and> permissions (reconstitute i n dn dsc ps tid act c u) = ps
   \<and> permissions (setPermissions now r ps) = ps
   \<and> getPermissions (setPermissions now r ps) = ps
   \<and> permissions (addPermission now r p)
       = (if p \<in> set (permissions r) then permissions r else permissions r @ [p])
   \<and> permissions (removePermission now r p) = remove1 p (permissions r)
   \<and> distinct (permissions (Role_create uuid now n dn ds (Some ps) tid)) = distinct ps
   \<and> distinct (permissions (Role_create uuid now n dn ds None tid))
   \<and> distinct (permissions (reconstitute i n dn dsc ps tid act c u)) = distinct ps
   \<and> distinct (permissions (setPermissions now r ps)) = distinct ps
   \<and> (distinct (permissions r) \<longrightarrow> distinct (permissions (addPermission now r p)))
   \<and> (distinct (permissions r) \<longrightarrow> distinct (permissions (removePermission now r p)))"
proof -
  have stored:
    "permissions (Role_create uuid now n dn ds (Some ps) tid) = ps"
    "permissions (Role_create uuid now n dn ds None tid) = []"
    "permissions (reconstitute i n dn dsc ps tid act c u) = ps"
    "permissions (setPermissions now r ps) = ps"
    by (simp_all add: Role_create_def reconstitute_def setPermissions_def touch_def)
  have add: "permissions (addPermission now r p)
       = (if p \<in> set (permissions r) then permissions r else permissions r @ [p])"
    by (rule permissions_addPermission)
  have rem: "permissions (removePermission now r p) = remove1 p (permissions r)"
    by (rule permissions_removePermission)
  show ?thesis
    unfolding getPermissions_def stored add rem by simp
qed

theorem permissions_duplicate_freedom_witness:
  "distinct (permissions
      (Role_create ''r1'' 0 ''teacher'' ''Teacher'' None (Some [''grade:read'']) None))
   \<and> permissions (Role_create ''r1'' 1 ''teacher'' ''Teacher'' None
        (Some [''grade:read'', ''grade:update'']) None)
       = [''grade:read'', ''grade:update'']
   \<and> permissions (setPermissions 1
        (Role_create ''r1'' 0 ''teacher'' ''Teacher'' None (Some [''grade:read'']) None)
        [''grade:read'', ''grade:update''])
       = [''grade:read'', ''grade:update'']
   \<and> permissions (addPermission 1
        (Role_create ''r1'' 0 ''teacher'' ''Teacher'' None (Some [''grade:read'']) None)
        ''grade:read'') = [''grade:read'']
   \<and> distinct (permissions (addPermission 1
        (Role_create ''r1'' 0 ''teacher'' ''Teacher'' None (Some [''grade:read'']) None)
        ''grade:read''))
   \<and> permissions (removePermission 1
        (Role_create ''r1'' 0 ''teacher'' ''Teacher'' None (Some [''grade:read'']) None)
        ''grade:read'') = []
   \<and> distinct (permissions (removePermission 1
        (Role_create ''r1'' 0 ''teacher'' ''Teacher'' None (Some [''grade:read'']) None)
        ''grade:read''))"
proof -
  have d: "distinct (permissions
      (Role_create ''r1'' 0 ''teacher'' ''Teacher'' None (Some [''grade:read'']) None))"
    by (simp add: Role_create_def)
  have p: "permissions
      (Role_create ''r1'' 0 ''teacher'' ''Teacher'' None (Some [''grade:read'']) None)
      = [''grade:read'']"
    by (simp add: Role_create_def)
  show ?thesis
    using d p permissions_duplicate_freedom
      [of "''r1''" 1 "''teacher''" "''Teacher''" None "[''grade:read'', ''grade:update'']"
          None "''r1''" None True 0 0
          "Role_create ''r1'' 0 ''teacher'' ''Teacher'' None (Some [''grade:read'']) None"
          "''grade:read''"]
    by simp
qed

text \<open>
  Claim C4 as stated fails: \<open>create\<close>, \<open>reconstitute\<close> and \<open>setPermissions\<close> given
  the list \<open>["grade:read", "grade:read"]\<close> each leave a role whose permission list
  holds the same string twice.
\<close>

theorem permissions_duplicate_counterexample:
  "\<not> distinct (permissions
       (Role_create ''r1'' 0 ''teacher'' ''Teacher'' None
          (Some [''grade:read'', ''grade:read'']) None))
   \<and> \<not> distinct (permissions
       (reconstitute ''r1'' ''teacher'' ''Teacher'' None [''grade:read'', ''grade:read'']
          None True 0 0))
   \<and> distinct (permissions
       (Role_create ''r1'' 0 ''teacher'' ''Teacher'' None None None))
   \<and> \<not> distinct (permissions
       (setPermissions 1 (Role_create ''r1'' 0 ''teacher'' ''Teacher'' None None None)
          [''grade:read'', ''grade:read'']))"
  by (simp add: Role_create_def reconstitute_def setPermissions_def touch_def)


section \<open>Role: the modification time\<close>

text \<open>
  Claim C5, as the code has it. \<open>updateDetails\<close>, \<open>setPermissions\<close>, \<open>activate\<close>
  and \<open>deactivate\<close> set \<open>updatedAt\<close> to the time of the call on every call.
  \<open>addPermission\<close> does so exactly when the permission string was not yet in the
  list, and \<open>removePermission\<close> exactly when it was; a call that leaves the list
  unchanged leaves \<open>updatedAt\<close> unchanged.
\<close>

theorem updatedAt_after_mutators:
  "updatedAt (updateDetails now r dn ds) = now
   \<and> updatedAt (setPermissions now r ps) = now
   \<and> updatedAt (activate now r) = now
   \<and> updatedAt (deactivate now r) = now
   \<and> updatedAt (addPermission now r p)
       = (if p \<in> set (permissions r) then updatedAt r else now)
   \<and> updatedAt (removePermission now r p)
       = (if p \<in> set (permissions r) then now else updatedAt r)"
  by (simp add: updateDetails_def setPermissions_def activate_def deactivate_def
      addPermission_def removePermission_def touch_def Let_def js_includes_iff
      js_indexOf_found)

theorem updatedAt_after_mutators_witness:
  "updatedAt (addPermission 5
      (reconstitute ''r1'' ''teacher'' ''Teacher'' None [''grade:read''] None True 0 0)
      ''grade:update'') = 5
   \<and> updatedAt (removePermission 5
      (reconstitute ''r1'' ''teacher'' ''Teacher'' None [''grade:read''] None True 0 0)
      ''grade:read'') = 5
   \<and> updatedAt (deactivate 5
      (reconstitute ''r1'' ''teacher'' ''Teacher'' None [''grade:read''] None True 0 0)) = 5"
  using updatedAt_after_mutators
      [of 5 "reconstitute ''r1'' ''teacher'' ''Teacher'' None [''grade:read''] None True 0 0"
          None None "[]" "''grade:update''"]
    updatedAt_after_mutators
      [of 5 "reconstitute ''r1'' ''teacher'' ''Teacher'' None [''grade:read''] None True 0 0"
          None None "[]" "''grade:read''"]
  by (simp add: reconstitute_def)

text \<open>
  Claim C5 as stated fails on the calls that change nothing: on a role last updated at
  time 0 that holds \<open>grade:read\<close>, adding \<open>grade:read\<close> at time 5 and removing the
  absent \<open>grade:update\<close> at time 5 both leave \<open>updatedAt\<close> at 0.
\<close>

theorem updatedAt_noop_counterexample:
  "updatedAt
      (reconstitute ''r1'' ''teacher'' ''Teacher'' None [''grade:read''] None True 0 0) = 0
   \<and> updatedAt (addPermission 5
      (reconstitute ''r1'' ''teacher'' ''Teacher'' None [''grade:read''] None True 0 0)
      ''grade:read'') = 0
   \<and> updatedAt (removePermission 5
      (reconstitute ''r1'' ''teacher'' ''Teacher'' None [''grade:read''] None True 0 0)
      ''grade:update'') = 0"
  by (simp add: reconstitute_def addPermission_def removePermission_def)

section \<open>Role: details\<close>

text \<open>
  Claim C6, as the code has it. \<open>updateDetails\<close> called with a description string
  stores the trimmed string, or \<open>null\<close> when nothing is left after trimming; the empty
  string in particular clears the description. Called with \<open>description\<close> undefined,
  whether the key is omitted or passed as \<open>undefined\<close>, it leaves the stored
  description unchanged. An undefined or empty \<open>displayName\<close> leaves the display name
  unchanged, and no call changes the identifier, the name, the permission list, the
  tenant, the active flag or the creation time.
\<close>

theorem updateDetails_fields:
  "description (updateDetails now r dn (Some d))
     = (if js_trim d = [] then None else Some (js_trim d))
   \<and> description (updateDetails now r dn (Some [])) = None
   \<and> description (updateDetails now r dn None) = description r
   \<and> displayName (updateDetails now r None ds) = displayName r
   \<and> displayName (updateDetails now r (Some []) ds) = displayName r
   \<and> roleId (updateDetails now r dn ds) = roleId r
   \<and> name (updateDetails now r dn ds) = name r
   \<and> permissions (updateDetails now r dn ds) = permissions r
   \<and> tenantId (updateDetails now r dn ds) = tenantId r
   \<and> isActive (updateDetails now r dn ds) = isActive r
   \<and> createdAt (updateDetails now r dn ds) = createdAt r"
proof -
  have "js_trim [] = []" by (simp add: js_trim_def)
  then show ?thesis
    by (simp add: updateDetails_def touch_def Let_def orNull_def)
qed

theorem updateDetails_fields_witness:
  "description (updateDetails 1
      (Role_create ''r1'' 0 ''admin'' ''Admin'' (Some ''x'') None None) None (Some '' ''))
     = None
   \<and> description (updateDetails 1
      (Role_create ''r1'' 0 ''admin'' ''Admin'' (Some ''x'') None None) None (Some ''  y ''))
     = Some ''y''
   \<and> description (updateDetails 1
      (Role_create ''r1'' 0 ''admin'' ''Admin'' (Some ''x'') None None) None (Some []))
     = None"
  using updateDetails_fields
      [of 1 "Role_create ''r1'' 0 ''admin'' ''Admin'' (Some ''x'') None None" None "'' ''" None]
    updateDetails_fields
      [of 1 "Role_create ''r1'' 0 ''admin'' ''Admin'' (Some ''x'') None None" None "''  y ''"
          None]
  by (simp add: js_trim_def isWhiteSpace_def)

text \<open>
  Claim C6 as stated fails for \<open>undefined\<close>: on a role whose description is \<open>x\<close>,
  \<open>updateDetails\<close> with \<open>description\<close> undefined leaves the description \<open>x\<close>; it
  does not set it to \<open>null\<close>.
\<close>

theorem updateDetails_undefined_counterexample:
  "description (Role_create ''r1'' 0 ''admin'' ''Admin'' (Some ''x'') None None) = Some ''x''
   \<and> description (updateDetails 1
        (Role_create ''r1'' 0 ''admin'' ''Admin'' (Some ''x'') None None) None None)
     = Some ''x''
   \<and> description (updateDetails 1
        (Role_create ''r1'' 0 ''admin'' ''Admin'' (Some ''x'') None None) None None)
     \<noteq> None"
  by (simp add: Role_create_def updateDetails_def touch_def Let_def orNull_def js_trim_def
      isWhiteSpace_def)

text \<open>
  Claim C7, as the code has it. For every string \<open>s\<close> that holds at least one
  character that is not white space, the display name after \<open>Role.create\<close> with
  \<open>displayName\<close> \<open>s\<close>, and after \<open>updateDetails\<close> with \<open>displayName\<close> \<open>s\<close>, is
  the trimmed \<open>s\<close>, which is not empty.
\<close>

theorem displayName_nonempty:
  assumes "\<exists>c \<in> set s. \<not> isWhiteSpace c"
  shows "getDisplayName (Role_create uuid now n s ds ps tid) = js_trim s
         \<and> getDisplayName (updateDetails now r (Some s) ds) = js_trim s
         \<and> getDisplayName (Role_create uuid now n s ds ps tid) \<noteq> []
         \<and> getDisplayName (updateDetails now r (Some s) ds) \<noteq> []"
proof -
  from assms have ne: "s \<noteq> []" by auto
  from assms have tr: "js_trim s \<noteq> []" by (simp add: js_trim_Nil_iff)
  from ne tr show ?thesis
    by (simp add: getDisplayName_def Role_create_def updateDetails_def touch_def Let_def)
qed

theorem displayName_nonempty_witness:
  "(\<exists>c \<in> set '' Senior Teacher ''. \<not> isWhiteSpace c)
   \<and> getDisplayName (Role_create ''r1'' 1 ''teacher'' '' Senior Teacher '' None None None)
       = ''Senior Teacher''
   \<and> getDisplayName (updateDetails 1
         (Role_create ''r1'' 0 ''teacher'' ''Teacher'' None None None)
         (Some '' Senior Teacher '') None)
       = ''Senior Teacher''"
proof -
  have h: "\<exists>c \<in> set '' Senior Teacher ''. \<not> isWhiteSpace c"
    by (simp add: isWhiteSpace_def)
  have t: "js_trim '' Senior Teacher '' = ''Senior Teacher''"
    by (simp add: js_trim_def isWhiteSpace_def)
  show ?thesis
    using h t
      displayName_nonempty [OF h, of "''r1''" 1 "''teacher''" None None None
        "Role_create ''r1'' 0 ''teacher'' ''Teacher'' None None None"]
    by simp
qed

text \<open>
  Claim C7 as stated fails for a non-empty string of white space: with the one-space
  string as \<open>displayName\<close>, both \<open>Role.create\<close> and \<open>updateDetails\<close> leave the
  display name empty.
\<close>

theorem displayName_blank_counterexample:
  "'' '' \<noteq> []
   \<and> getDisplayName (Role_create ''r1'' 0 ''teacher'' '' '' None None None) = []
   \<and> getDisplayName (updateDetails 1
        (Role_create ''r1'' 0 ''teacher'' ''Teacher'' None None None) (Some '' '') None) = []"
  by (simp add: getDisplayName_def Role_create_def updateDetails_def touch_def Let_def
      js_trim_def isWhiteSpace_def)

end
